theory Spec2Isabelle
  imports Main "HOL-Library.Word"
begin

section \<open>PythonCalc: the safe expression evaluator of calc.py\<close>

text \<open>
  The program parses a text with the host's \<^verbatim>\<open>ast.parse(expr, mode='eval')\<close> and walks
  the resulting tree with \<^verbatim>\<open>_eval_node\<close>, which answers only for an allow-list of node
  shapes. This theory embeds the values the walk computes with, the exceptions it can meet,
  the three tables \<^verbatim>\<open>SAFE_OPERATORS\<close>, \<^verbatim>\<open>SAFE_FUNCTIONS\<close>, \<^verbatim>\<open>CONSTANTS\<close>, the plugin store,
  \<^verbatim>\<open>load_plugins\<close>, \<^verbatim>\<open>_eval_node\<close> and \<^verbatim>\<open>eval_expr\<close>.
\<close>

subsection \<open>Exceptions\<close>

text \<open>
  An exception is its class and the text \<^verbatim>\<open>str(e)\<close>. \<^verbatim>\<open>except Exception\<close> catches the
  classes derived from \<^verbatim>\<open>Exception\<close>; \<^verbatim>\<open>SystemExit\<close>, \<^verbatim>\<open>KeyboardInterrupt\<close> and
  \<^verbatim>\<open>GeneratorExit\<close> derive from \<^verbatim>\<open>BaseException\<close> only.
\<close>

datatype exc_class =
    ValueError | TypeError | ZeroDivisionError | OverflowError
  | SyntaxError | MemoryError | RecursionError
  | OtherException string
  | SystemExit | KeyboardInterrupt | GeneratorExit

datatype exn = Exn (cls: exc_class) (msg: string)

fun derives_Exception :: "exc_class \<Rightarrow> bool" where
  "derives_Exception SystemExit = False"
| "derives_Exception KeyboardInterrupt = False"
| "derives_Exception GeneratorExit = False"
| "derives_Exception _ = True"

subsection \<open>Values\<close>

text \<open>
  A Python \<^verbatim>\<open>float\<close> is an IEEE-754 binary64, kept here as its 64 bits; a \<^verbatim>\<open>complex\<close> is
  two of them. Python's \<^verbatim>\<open>int\<close> is unbounded. \<^verbatim>\<open>PyNone\<close> is what a plugin callable
  without a \<^verbatim>\<open>return\<close> hands back; no literal and no built-in of the tables produces it.
\<close>

type_synonym float64 = "64 word"

datatype pyval = PyInt int | PyFloat float64 | PyComplex float64 float64 | PyNone

fun is_number :: "pyval \<Rightarrow> bool" where
  "is_number PyNone = False"
| "is_number _ = True"

fun is_float :: "pyval \<Rightarrow> bool" where
  "is_float (PyFloat _) = True"
| "is_float _ = False"

fun type_name :: "pyval \<Rightarrow> string" where
  "type_name (PyInt _) = ''int''"
| "type_name (PyFloat _) = ''float''"
| "type_name (PyComplex _ _) = ''complex''"
| "type_name PyNone = ''NoneType''"

text \<open>
  \<^verbatim>\<open>x == 0.0\<close> on a double: every bit but the sign is clear. An infinity has the eleven
  exponent bits set and no other bit but the sign; a NaN has them set and some bit below.
\<close>

definition f_is_zero :: "float64 \<Rightarrow> bool" where
  "f_is_zero x = (and x 0x7FFFFFFFFFFFFFFF = 0)"

definition f_is_inf :: "float64 \<Rightarrow> bool" where
  "f_is_inf x = (and x 0x7FFFFFFFFFFFFFFF = 0x7FF0000000000000)"

definition f_is_nan :: "float64 \<Rightarrow> bool" where
  "f_is_nan x = (0x7FF0000000000000 < and x 0x7FFFFFFFFFFFFFFF)"

subsection \<open>The host's floating-point arithmetic\<close>

text \<open>
  The arithmetic of doubles, the C library's functions and the conversions between integers,
  literals and doubles belong to the Python runtime, not to calc.py. They are a parameter of
  the model: every theorem below holds whatever these functions compute. Where the runtime
  raises, the parameter says which of its errors it is: a function of the math module fails
  with \<^verbatim>\<open>EDOM\<close> or \<^verbatim>\<open>ERANGE\<close>, a power with a zero base and a negative exponent or with an
  overflow, and the float power of a negative base to a fractional exponent goes on as a
  complex power.
\<close>

datatype math_err = EDOM | ERANGE

datatype pow_result = PowFloat float64 | PowComplex | PowZeroDivision | PowOverflow

datatype cpow_result = CPow float64 float64 | CPowZeroDivision | CPowOverflow

record host =
  float_of_int :: "int \<Rightarrow> float64 option"
  float_of_literal :: "string \<Rightarrow> float64"
  int_true_divide :: "int \<Rightarrow> int \<Rightarrow> float64 option"
  f_add :: "float64 \<Rightarrow> float64 \<Rightarrow> float64"
  f_sub :: "float64 \<Rightarrow> float64 \<Rightarrow> float64"
  f_mul :: "float64 \<Rightarrow> float64 \<Rightarrow> float64"
  f_div :: "float64 \<Rightarrow> float64 \<Rightarrow> float64"
  f_rem :: "float64 \<Rightarrow> float64 \<Rightarrow> float64"
  f_pow :: "float64 \<Rightarrow> float64 \<Rightarrow> pow_result"
  f_neg :: "float64 \<Rightarrow> float64"
  f_abs :: "float64 \<Rightarrow> float64"
  f_round :: "float64 \<Rightarrow> int"
  f_round_to :: "float64 \<Rightarrow> int \<Rightarrow> float64 option"
  c_add :: "float64 \<times> float64 \<Rightarrow> float64 \<times> float64 \<Rightarrow> float64 \<times> float64"
  c_sub :: "float64 \<times> float64 \<Rightarrow> float64 \<times> float64 \<Rightarrow> float64 \<times> float64"
  c_mul :: "float64 \<times> float64 \<Rightarrow> float64 \<times> float64 \<Rightarrow> float64 \<times> float64"
  c_div :: "float64 \<times> float64 \<Rightarrow> float64 \<times> float64 \<Rightarrow> float64 \<times> float64"
  c_pow :: "float64 \<times> float64 \<Rightarrow> float64 \<times> float64 \<Rightarrow> cpow_result"
  c_abs :: "float64 \<times> float64 \<Rightarrow> float64 option"
  m_sin :: "float64 \<Rightarrow> math_err + float64"
  m_cos :: "float64 \<Rightarrow> math_err + float64"
  m_tan :: "float64 \<Rightarrow> math_err + float64"
  m_log :: "float64 \<Rightarrow> math_err + float64"
  m_log_int :: "int \<Rightarrow> float64"
  m_sqrt :: "float64 \<Rightarrow> math_err + float64"
  math_pi :: float64
  math_e :: float64
  phi :: float64

subsection \<open>The expression tree of the host parser\<close>

text \<open>
  The classes of the \<^verbatim>\<open>ast\<close> module that \<^verbatim>\<open>_eval_node\<close> tells apart. \<^verbatim>\<open>isinstance(node,
  ast.Num)\<close> holds for a constant whose value is an int, a float or a complex (not a bool).
  Every expression class that \<^verbatim>\<open>_eval_node\<close> has no branch for (Compare, BoolOp, Lambda,
  Attribute, Subscript, Tuple, ...) is \<^verbatim>\<open>OtherNode\<close> with the class name.
\<close>

datatype operator =
    Add | Sub | Mult | MatMult | Div | Mod | Pow_op
  | LShift | RShift | BitOr | BitXor | BitAnd | FloorDiv

datatype unaryop = Invert | Not_op | UAdd | USub

datatype const_value =
    CInt int | CFloat float64 | CImag float64
  | CStr string | CBool bool | CNone | CEllipsis

datatype node =
    Constant const_value
  | BinOp node operator node
  | UnaryOp unaryop node
  | Call node "node list" "(string option \<times> node) list"
  | Name string
  | OtherNode string

text \<open>\<^verbatim>\<open>node.n\<close> of a node that passes \<^verbatim>\<open>isinstance(node, ast.Num)\<close>.\<close>

fun num_value :: "const_value \<Rightarrow> pyval option" where
  "num_value (CInt n) = Some (PyInt n)"
| "num_value (CFloat x) = Some (PyFloat x)"
| "num_value (CImag y) = Some (PyComplex 0 y)"
| "num_value _ = None"

subsection \<open>Arithmetic of the operator module\<close>

definition quoted :: "string \<Rightarrow> string" where
  "quoted s = [CHR 0x27] @ s @ [CHR 0x27]"

definition unsupported :: "string \<Rightarrow> pyval \<Rightarrow> pyval \<Rightarrow> exn" where
  "unsupported opsym a b = Exn TypeError
     (''unsupported operand type(s) for '' @ opsym @ '': '' @ quoted (type_name a) @
      '' and '' @ quoted (type_name b))"

definition too_large :: exn where
  "too_large = Exn OverflowError ''int too large to convert to float''"

text \<open>
  The coercion of an int or float operand to a double (\<^verbatim>\<open>CONVERT_TO_DOUBLE\<close>). The integer
  zero is the double with all bits clear; an integer too large for a double raises.
\<close>

fun as_double :: "host \<Rightarrow> pyval \<Rightarrow> exn + float64" where
  "as_double fp (PyInt n) =
     (if n = 0 then Inr 0
      else case float_of_int fp n of None \<Rightarrow> Inl too_large | Some x \<Rightarrow> Inr x)"
| "as_double fp (PyFloat x) = Inr x"
| "as_double fp (PyComplex _ _) = Inl (Exn TypeError ''can't convert complex to float'')"
| "as_double fp PyNone = Inl (Exn TypeError ''must be real number, not NoneType'')"

text \<open>The coercion of a number to a complex (\<^verbatim>\<open>TO_COMPLEX\<close>).\<close>

fun as_complex :: "host \<Rightarrow> pyval \<Rightarrow> exn + float64 \<times> float64" where
  "as_complex fp (PyComplex x y) = Inr (x, y)"
| "as_complex fp v = (case as_double fp v of Inl e \<Rightarrow> Inl e | Inr x \<Rightarrow> Inr (x, 0))"

definition both_double ::
  "host \<Rightarrow> pyval \<Rightarrow> pyval \<Rightarrow> (float64 \<Rightarrow> float64 \<Rightarrow> exn + pyval) \<Rightarrow> exn + pyval" where
  "both_double fp a b k =
     (case as_double fp a of Inl e \<Rightarrow> Inl e
      | Inr x \<Rightarrow> (case as_double fp b of Inl e \<Rightarrow> Inl e | Inr y \<Rightarrow> k x y))"

definition both_complex ::
  "host \<Rightarrow> pyval \<Rightarrow> pyval \<Rightarrow> (float64 \<times> float64 \<Rightarrow> float64 \<times> float64 \<Rightarrow> exn + pyval)
     \<Rightarrow> exn + pyval" where
  "both_complex fp a b k =
     (case as_complex fp a of Inl e \<Rightarrow> Inl e
      | Inr x \<Rightarrow> (case as_complex fp b of Inl e \<Rightarrow> Inl e | Inr y \<Rightarrow> k x y))"

fun is_complex :: "pyval \<Rightarrow> bool" where
  "is_complex (PyComplex _ _) = True"
| "is_complex _ = False"

definition complex_val :: "float64 \<times> float64 \<Rightarrow> pyval" where
  "complex_val z = PyComplex (fst z) (snd z)"

text \<open>
  One skeleton for \<^verbatim>\<open>+\<close>, \<^verbatim>\<open>-\<close> and \<^verbatim>\<open>*\<close>: exact on two ints, the host's double
  operation when a float is involved, the host's complex operation when a complex is.
\<close>

definition arith ::
  "host \<Rightarrow> string \<Rightarrow> (int \<Rightarrow> int \<Rightarrow> int) \<Rightarrow> (float64 \<Rightarrow> float64 \<Rightarrow> float64)
     \<Rightarrow> (float64 \<times> float64 \<Rightarrow> float64 \<times> float64 \<Rightarrow> float64 \<times> float64)
     \<Rightarrow> pyval \<Rightarrow> pyval \<Rightarrow> exn + pyval" where
  "arith fp opsym iop fop cop a b =
     (if a = PyNone \<or> b = PyNone then Inl (unsupported opsym a b)
      else if is_complex a \<or> is_complex b
        then both_complex fp a b (\<lambda>x y. Inr (complex_val (cop x y)))
      else case (a, b) of
          (PyInt m, PyInt n) \<Rightarrow> Inr (PyInt (iop m n))
        | _ \<Rightarrow> both_double fp a b (\<lambda>x y. Inr (PyFloat (fop x y))))"

definition add :: "host \<Rightarrow> pyval \<Rightarrow> pyval \<Rightarrow> exn + pyval" where
  "add fp = arith fp ''+'' (+) (f_add fp) (c_add fp)"

definition sub :: "host \<Rightarrow> pyval \<Rightarrow> pyval \<Rightarrow> exn + pyval" where
  "sub fp = arith fp ''-'' (-) (f_sub fp) (c_sub fp)"

definition mul :: "host \<Rightarrow> pyval \<Rightarrow> pyval \<Rightarrow> exn + pyval" where
  "mul fp = arith fp ''*'' (*) (f_mul fp) (c_mul fp)"

text \<open>
  \<^verbatim>\<open>operator.truediv\<close>: a zero divisor raises \<^verbatim>\<open>ZeroDivisionError\<close> for ints, floats and
  complex numbers alike; no infinity and no NaN comes out of a division by zero.
\<close>

definition truediv :: "host \<Rightarrow> pyval \<Rightarrow> pyval \<Rightarrow> exn + pyval" where
  "truediv fp a b =
     (if a = PyNone \<or> b = PyNone then Inl (unsupported ''/'' a b)
      else if is_complex a \<or> is_complex b
        then both_complex fp a b (\<lambda>x y.
          if f_is_zero (fst y) \<and> f_is_zero (snd y)
          then Inl (Exn ZeroDivisionError ''complex division by zero'')
          else Inr (complex_val (c_div fp x y)))
      else case (a, b) of
          (PyInt m, PyInt n) \<Rightarrow>
            (if n = 0 then Inl (Exn ZeroDivisionError ''division by zero'')
             else case int_true_divide fp m n of
                 None \<Rightarrow> Inl (Exn OverflowError ''integer division result too large for a float'')
               | Some x \<Rightarrow> Inr (PyFloat x))
        | _ \<Rightarrow> both_double fp a b (\<lambda>x y.
            if f_is_zero y then Inl (Exn ZeroDivisionError ''float division by zero'')
            else Inr (PyFloat (f_div fp x y))))"

text \<open>
  \<^verbatim>\<open>operator.mod\<close>, Python's \<^verbatim>\<open>%\<close>: on ints the floored remainder, which is HOL's
  \<open>mod\<close> on \<open>int\<close>; on floats the host's \<^verbatim>\<open>float_rem\<close>; complex numbers have none.
\<close>

definition mod_op :: "host \<Rightarrow> pyval \<Rightarrow> pyval \<Rightarrow> exn + pyval" where
  "mod_op fp a b =
     (if a = PyNone \<or> b = PyNone then Inl (unsupported ''%'' a b)
      else if is_complex a \<or> is_complex b
        then Inl (Exn TypeError ''can't mod complex numbers.'')
      else case (a, b) of
          (PyInt m, PyInt n) \<Rightarrow>
            (if n = 0 then Inl (Exn ZeroDivisionError ''integer division or modulo by zero'')
             else Inr (PyInt (m mod n)))
        | _ \<Rightarrow> both_double fp a b (\<lambda>x y.
            if f_is_zero y then Inl (Exn ZeroDivisionError ''float modulo'')
            else Inr (PyFloat (f_rem fp x y))))"

text \<open>
  \<^verbatim>\<open>operator.pow\<close>: exact on an int raised to a non-negative int; an int raised to a
  negative int is the float power of the two converted operands.
\<close>

definition complex_pow ::
  "host \<Rightarrow> float64 \<times> float64 \<Rightarrow> float64 \<times> float64 \<Rightarrow> exn + pyval" where
  "complex_pow fp x y =
     (case c_pow fp x y of
        CPow re im \<Rightarrow> Inr (PyComplex re im)
      | CPowZeroDivision \<Rightarrow> Inl (Exn ZeroDivisionError ''0.0 to a negative or complex power'')
      | CPowOverflow \<Rightarrow> Inl (Exn OverflowError ''complex exponentiation''))"

definition float_pow :: "host \<Rightarrow> float64 \<Rightarrow> float64 \<Rightarrow> exn + pyval" where
  "float_pow fp x y =
     (case f_pow fp x y of
        PowFloat r \<Rightarrow> Inr (PyFloat r)
      | PowComplex \<Rightarrow> complex_pow fp (x, 0) (y, 0)
      | PowZeroDivision \<Rightarrow>
          Inl (Exn ZeroDivisionError ''0.0 cannot be raised to a negative power'')
      | PowOverflow \<Rightarrow>
          Inl (Exn OverflowError
                (''(34, '' @ quoted ''Numerical result out of range'' @ '')'')))"

definition pow :: "host \<Rightarrow> pyval \<Rightarrow> pyval \<Rightarrow> exn + pyval" where
  "pow fp a b =
     (if a = PyNone \<or> b = PyNone then Inl (unsupported ''** or pow()'' a b)
      else if is_complex a \<or> is_complex b
        then both_complex fp a b (complex_pow fp)
      else case (a, b) of
          (PyInt m, PyInt n) \<Rightarrow>
            (if 0 \<le> n then Inr (PyInt (m ^ nat n)) else both_double fp a b (float_pow fp))
        | _ \<Rightarrow> both_double fp a b (float_pow fp))"

fun neg :: "host \<Rightarrow> pyval \<Rightarrow> exn + pyval" where
  "neg fp (PyInt n) = Inr (PyInt (- n))"
| "neg fp (PyFloat x) = Inr (PyFloat (f_neg fp x))"
| "neg fp (PyComplex x y) = Inr (PyComplex (f_neg fp x) (f_neg fp y))"
| "neg fp PyNone = Inl (Exn TypeError (''bad operand type for unary -: '' @ quoted ''NoneType''))"

text \<open>
  \<^verbatim>\<open>SAFE_OPERATORS\<close> has six keys that are classes of binary operators and one, \<^verbatim>\<open>ast.USub\<close>,
  that is a class of unary operators. The op of a \<^verbatim>\<open>BinOp\<close> is never a unary class and the
  op of a \<^verbatim>\<open>UnaryOp\<close> never a binary one, so the dictionary is read as two tables.
\<close>

fun SAFE_OPERATORS :: "host \<Rightarrow> operator \<Rightarrow> (pyval \<Rightarrow> pyval \<Rightarrow> exn + pyval) option" where
  "SAFE_OPERATORS fp Add = Some (add fp)"
| "SAFE_OPERATORS fp Sub = Some (sub fp)"
| "SAFE_OPERATORS fp Mult = Some (mul fp)"
| "SAFE_OPERATORS fp Div = Some (truediv fp)"
| "SAFE_OPERATORS fp Pow_op = Some (pow fp)"
| "SAFE_OPERATORS fp Mod = Some (mod_op fp)"
| "SAFE_OPERATORS fp _ = None"

fun SAFE_OPERATORS_unary :: "host \<Rightarrow> unaryop \<Rightarrow> (pyval \<Rightarrow> exn + pyval) option" where
  "SAFE_OPERATORS_unary fp USub = Some (neg fp)"
| "SAFE_OPERATORS_unary fp _ = None"

subsection \<open>The built-in functions\<close>

fun digit_char :: "nat \<Rightarrow> char" where
  "digit_char n = ''0123456789'' ! (n mod 10)"

fun show_nat :: "nat \<Rightarrow> string" where
  "show_nat n = (if n < 10 then [digit_char n] else show_nat (n div 10) @ [digit_char n])"

text \<open>
  The \<^verbatim>\<open>TypeError\<close> of a built-in called with a number of arguments it does not take:
  \<^verbatim>\<open>math.log\<close> takes one or two, \<^verbatim>\<open>round\<close> one or two, every other built-in of the table
  exactly one.
\<close>

definition arity_error :: "string \<Rightarrow> nat \<Rightarrow> exn" where
  "arity_error name n =
     Exn TypeError
       (if name = ''log'' then
          (if n = 0 then ''log expected at least 1 argument, got 0''
           else ''log expected at most 2 arguments, got '' @ show_nat n)
        else if name = ''round'' then
          (if n = 0
           then ''round() missing required argument '' @ quoted ''number'' @ '' (pos 1)''
           else ''round() takes at most 2 arguments ('' @ show_nat n @ '' given)'')
        else name @ ''() takes exactly one argument ('' @ show_nat n @ '' given)'')"

fun math_error :: "math_err \<Rightarrow> exn" where
  "math_error EDOM = Exn ValueError ''math domain error''"
| "math_error ERANGE = Exn OverflowError ''math range error''"

text \<open>
  \<^verbatim>\<open>math.sin\<close>, \<^verbatim>\<open>math.cos\<close>, \<^verbatim>\<open>math.tan\<close> and \<^verbatim>\<open>math.sqrt\<close> take one argument, convert it
  to a double and call the C library.
\<close>

definition math_1 ::
  "host \<Rightarrow> string \<Rightarrow> (float64 \<Rightarrow> math_err + float64) \<Rightarrow> pyval list \<Rightarrow> exn + pyval" where
  "math_1 fp name f args =
     (case args of
        [x] \<Rightarrow> (case as_double fp x of Inl e \<Rightarrow> Inl e
                | Inr d \<Rightarrow> (case f d of Inl e \<Rightarrow> Inl (math_error e) | Inr r \<Rightarrow> Inr (PyFloat r)))
      | _ \<Rightarrow> Inl (arity_error name (length args)))"

text \<open>
  \<^verbatim>\<open>math.log(x[, base])\<close> takes one or two arguments; with a base it is the quotient of two
  logarithms, a float division that raises on a zero divisor.
\<close>

fun loghelper :: "host \<Rightarrow> pyval \<Rightarrow> exn + float64" where
  "loghelper fp (PyInt n) =
     (if n \<le> 0 then Inl (Exn ValueError ''math domain error'') else Inr (m_log_int fp n))"
| "loghelper fp v =
     (case as_double fp v of
        Inl e \<Rightarrow> Inl e
      | Inr d \<Rightarrow> (case m_log fp d of Inl e \<Rightarrow> Inl (math_error e) | Inr r \<Rightarrow> Inr r))"

definition math_log :: "host \<Rightarrow> pyval list \<Rightarrow> exn + pyval" where
  "math_log fp args =
     (case args of
        [x] \<Rightarrow> (case loghelper fp x of Inl e \<Rightarrow> Inl e | Inr r \<Rightarrow> Inr (PyFloat r))
      | [x, base] \<Rightarrow>
          (case loghelper fp x of Inl e \<Rightarrow> Inl e
           | Inr num \<Rightarrow>
              (case loghelper fp base of Inl e \<Rightarrow> Inl e
               | Inr den \<Rightarrow>
                  if f_is_zero den then Inl (Exn ZeroDivisionError ''float division by zero'')
                  else Inr (PyFloat (f_div fp num den))))
      | _ \<Rightarrow> Inl (arity_error ''log'' (length args)))"

fun abs_value :: "host \<Rightarrow> pyval \<Rightarrow> exn + pyval" where
  "abs_value fp (PyInt n) = Inr (PyInt \<bar>n\<bar>)"
| "abs_value fp (PyFloat x) = Inr (PyFloat (f_abs fp x))"
| "abs_value fp (PyComplex x y) =
     (case c_abs fp (x, y) of
        None \<Rightarrow> Inl (Exn OverflowError ''absolute value too large'')
      | Some r \<Rightarrow> Inr (PyFloat r))"
| "abs_value fp PyNone =
     Inl (Exn TypeError (''bad operand type for abs(): '' @ quoted ''NoneType''))"

definition builtin_abs :: "host \<Rightarrow> pyval list \<Rightarrow> exn + pyval" where
  "builtin_abs fp args =
     (case args of [x] \<Rightarrow> abs_value fp x | _ \<Rightarrow> Inl (arity_error ''abs'' (length args)))"

text \<open>
  \<^verbatim>\<open>round(number, ndigits=None)\<close>. An int rounded to a negative number of digits goes to the
  nearest multiple of the power of ten, ties to the even quotient.
\<close>

definition round_int :: "int \<Rightarrow> int \<Rightarrow> int" where
  "round_int n d =
     (if 0 \<le> d then n
      else let p = 10 ^ nat (- d); q = n div p; r = n mod p
           in if p < 2 * r \<or> (2 * r = p \<and> odd q) then n - (r - p) else n - r)"

definition no_round :: "pyval \<Rightarrow> exn" where
  "no_round v = Exn TypeError (''type '' @ type_name v @ '' doesn't define __round__ method'')"

definition not_index :: "pyval \<Rightarrow> exn" where
  "not_index v =
     Exn TypeError (quoted (type_name v) @ '' object cannot be interpreted as an integer'')"

fun round_value :: "host \<Rightarrow> pyval \<Rightarrow> pyval \<Rightarrow> exn + pyval" where
  "round_value fp (PyInt n) PyNone = Inr (PyInt n)"
| "round_value fp (PyInt n) (PyInt d) = Inr (PyInt (round_int n d))"
| "round_value fp (PyInt n) nd = Inl (not_index nd)"
| "round_value fp (PyFloat x) PyNone =
     (if f_is_inf x then Inl (Exn OverflowError ''cannot convert float infinity to integer'')
      else if f_is_nan x then Inl (Exn ValueError ''cannot convert float NaN to integer'')
      else Inr (PyInt (f_round fp x)))"
| "round_value fp (PyFloat x) (PyInt d) =
     (case f_round_to fp x d of
        None \<Rightarrow> Inl (Exn OverflowError ''rounded value too large to represent'')
      | Some y \<Rightarrow> Inr (PyFloat y))"
| "round_value fp (PyFloat x) nd = Inl (not_index nd)"
| "round_value fp v nd = Inl (no_round v)"

definition builtin_round :: "host \<Rightarrow> pyval list \<Rightarrow> exn + pyval" where
  "builtin_round fp args =
     (case args of
        [x] \<Rightarrow> round_value fp x PyNone
      | [x, nd] \<Rightarrow> round_value fp x nd
      | _ \<Rightarrow> Inl (arity_error ''round'' (length args)))"

type_synonym callable = "pyval list \<Rightarrow> exn + pyval"

definition SAFE_FUNCTIONS :: "host \<Rightarrow> string \<rightharpoonup> callable" where
  "SAFE_FUNCTIONS fp =
     [''sin'' \<mapsto> math_1 fp ''sin'' (m_sin fp),
      ''cos'' \<mapsto> math_1 fp ''cos'' (m_cos fp),
      ''tan'' \<mapsto> math_1 fp ''tan'' (m_tan fp),
      ''log'' \<mapsto> math_log fp,
      ''sqrt'' \<mapsto> math_1 fp ''sqrt'' (m_sqrt fp),
      ''abs'' \<mapsto> builtin_abs fp,
      ''round'' \<mapsto> builtin_round fp]"

definition CONSTANTS :: "host \<Rightarrow> string \<rightharpoonup> pyval" where
  "CONSTANTS fp =
     [''pi'' \<mapsto> PyFloat (math_pi fp),
      ''e'' \<mapsto> PyFloat (math_e fp),
      ''phi'' \<mapsto> PyFloat (phi fp)]"

subsection \<open>The plugin store and its loader\<close>

text \<open>
  \<^verbatim>\<open>PLUGINS\<close> maps a name to a callable. A plugin callable is any function from the argument
  list to a value or an exception: it may raise whatever it likes, also a class that does
  not derive from \<^verbatim>\<open>Exception\<close>.

  \<^verbatim>\<open>load_plugins\<close> reads a directory. The file system is its input: \<open>None\<close> when
  \<^verbatim>\<open>plugin_dir\<close> is no directory, else the files in the order of \<^verbatim>\<open>os.listdir\<close>, each with
  what \<^verbatim>\<open>exec_module\<close> does on it: an exception, or the module, given as its attributes in
  the order of \<^verbatim>\<open>dir(module)\<close>.
\<close>

type_synonym plugins = "string \<rightharpoonup> callable"

datatype pyobj = Callable callable | NotCallable

record calc_state =
  PLUGINS :: plugins
  stdout :: "string list"

definition endswith :: "string \<Rightarrow> string \<Rightarrow> bool" where
  "endswith s suf = (length suf \<le> length s \<and> drop (length s - length suf) s = suf)"

definition startswith :: "string \<Rightarrow> string \<Rightarrow> bool" where
  "startswith s pre = (take (length pre) s = pre)"

fun register_attrs :: "(string \<times> pyobj) list \<Rightarrow> plugins \<Rightarrow> plugins" where
  "register_attrs [] P = P"
| "register_attrs ((attr, obj) # rest) P =
     register_attrs rest
       (if \<not> startswith attr ''_''
        then (case obj of Callable f \<Rightarrow> P(attr \<mapsto> f) | NotCallable \<Rightarrow> P)
        else P)"

fun load_files ::
  "(string \<times> (exn + (string \<times> pyobj) list)) list \<Rightarrow> calc_state \<Rightarrow> exn option \<times> calc_state" where
  "load_files [] st = (None, st)"
| "load_files ((filename, outcome) # rest) st =
     (if endswith filename ''.py''
      then (case outcome of
              Inr attrs \<Rightarrow> load_files rest (st\<lparr>PLUGINS := register_attrs attrs (PLUGINS st)\<rparr>)
            | Inl e \<Rightarrow>
                if derives_Exception (cls e)
                then load_files rest
                  (st\<lparr>stdout := stdout st @
                     [''Failed to load plugin '' @ filename @ '': '' @ msg e]\<rparr>)
                else (Some e, st))
      else load_files rest st)"

definition load_plugins ::
  "(string \<times> (exn + (string \<times> pyobj) list)) list option \<Rightarrow> calc_state
     \<Rightarrow> exn option \<times> calc_state" where
  "load_plugins plugin_dir st =
     (case plugin_dir of None \<Rightarrow> (None, st) | Some files \<Rightarrow> load_files files st)"

subsection \<open>The tree walk\<close>

text \<open>
  \<^verbatim>\<open>_eval_node\<close>. Beside its result the model keeps the list of the callables the walk has
  invoked, each with its arguments, in the order of the calls; an exception ends the walk
  where it is raised. \<^verbatim>\<open>getattr(node.func, 'id', None)\<close> is the name of a \<^verbatim>\<open>Name\<close> node and
  \<^verbatim>\<open>None\<close> for every other class; the keywords of a call are not looked at.
\<close>

datatype callee = Builtin string | Plugin string

type_synonym call_log = "(callee \<times> pyval list) list"

definition unsafe :: exn where
  "unsafe = Exn ValueError ''Unsafe or unsupported expression.''"

fun func_id :: "node \<Rightarrow> string option" where
  "func_id (Name n) = Some n"
| "func_id _ = None"

fun eval_node :: "host \<Rightarrow> plugins \<Rightarrow> node \<Rightarrow> call_log \<Rightarrow> (exn + pyval) \<times> call_log"
  and eval_args :: "host \<Rightarrow> plugins \<Rightarrow> node list \<Rightarrow> call_log \<Rightarrow> (exn + pyval list) \<times> call_log"
where
  "eval_node fp P (Constant c) lg =
     (case num_value c of Some v \<Rightarrow> (Inr v, lg) | None \<Rightarrow> (Inl unsafe, lg))"
| "eval_node fp P (BinOp left op right) lg =
     (case eval_node fp P left lg of
        (Inl e, lg1) \<Rightarrow> (Inl e, lg1)
      | (Inr a, lg1) \<Rightarrow>
          (case eval_node fp P right lg1 of
             (Inl e, lg2) \<Rightarrow> (Inl e, lg2)
           | (Inr b, lg2) \<Rightarrow>
               (case SAFE_OPERATORS fp op of
                  Some f \<Rightarrow> (f a b, lg2)
                | None \<Rightarrow> (Inl unsafe, lg2))))"
| "eval_node fp P (UnaryOp op operand) lg =
     (case eval_node fp P operand lg of
        (Inl e, lg1) \<Rightarrow> (Inl e, lg1)
      | (Inr a, lg1) \<Rightarrow>
          (case SAFE_OPERATORS_unary fp op of
             Some f \<Rightarrow> (f a, lg1)
           | None \<Rightarrow> (Inl unsafe, lg1)))"
| "eval_node fp P (Call func args keywords) lg =
     (case eval_args fp P args lg of
        (Inl e, lg1) \<Rightarrow> (Inl e, lg1)
      | (Inr vs, lg1) \<Rightarrow>
          (case func_id func of
             None \<Rightarrow> (Inl unsafe, lg1)
           | Some func_name \<Rightarrow>
               (case SAFE_FUNCTIONS fp func_name of
                  Some f \<Rightarrow> (f vs, lg1 @ [(Builtin func_name, vs)])
                | None \<Rightarrow>
                    (case P func_name of
                       Some g \<Rightarrow> (g vs, lg1 @ [(Plugin func_name, vs)])
                     | None \<Rightarrow> (Inl unsafe, lg1)))))"
| "eval_node fp P (Name ident) lg =
     (case CONSTANTS fp ident of Some v \<Rightarrow> (Inr v, lg) | None \<Rightarrow> (Inl unsafe, lg))"
| "eval_node fp P (OtherNode c) lg = (Inl unsafe, lg)"
| "eval_args fp P [] lg = (Inr [], lg)"
| "eval_args fp P (arg # rest) lg =
     (case eval_node fp P arg lg of
        (Inl e, lg1) \<Rightarrow> (Inl e, lg1)
      | (Inr v, lg1) \<Rightarrow>
          (case eval_args fp P rest lg1 of
             (Inl e, lg2) \<Rightarrow> (Inl e, lg2)
           | (Inr vs, lg2) \<Rightarrow> (Inr (v # vs), lg2)))"

subsection \<open>The entry point\<close>

text \<open>
  \<^verbatim>\<open>eval_expr\<close>: parse, walk, and turn every exception that derives from \<^verbatim>\<open>Exception\<close> into
  \<^verbatim>\<open>ValueError(f"Invalid expression: {e}")\<close>. The parser is the host's; \<open>parse\<close> stands for
  \<^verbatim>\<open>ast.parse(expr, mode='eval').body\<close>.
\<close>

definition reraise :: "exn \<Rightarrow> exn" where
  "reraise e =
     (if derives_Exception (cls e) then Exn ValueError (''Invalid expression: '' @ msg e) else e)"

definition try_body ::
  "(string \<Rightarrow> exn + node) \<Rightarrow> host \<Rightarrow> plugins \<Rightarrow> string \<Rightarrow> (exn + pyval) \<times> call_log" where
  "try_body parse fp P expr =
     (case parse expr of Inl e \<Rightarrow> (Inl e, []) | Inr tree \<Rightarrow> eval_node fp P tree [])"

definition eval_expr ::
  "(string \<Rightarrow> exn + node) \<Rightarrow> host \<Rightarrow> plugins \<Rightarrow> string \<Rightarrow> (exn + pyval) \<times> call_log" where
  "eval_expr parse fp P expr =
     (case try_body parse fp P expr of
        (Inl e, lg) \<Rightarrow> (Inl (reraise e), lg)
      | (Inr v, lg) \<Rightarrow> (Inr v, lg))"

subsection \<open>A fragment of the host's parser\<close>

text \<open>
  \<^verbatim>\<open>ast.parse\<close> is the parser of Python itself. The general theorems below hold for every
  parser. For the texts that the examples name, this section models the fragment of the
  Python grammar (language reference, sections 2.4 and 6) built from number literals, names,
  \<^verbatim>\<open>True\<close>, \<^verbatim>\<open>False\<close>, \<^verbatim>\<open>None\<close>, the arithmetic and bitwise operators, parentheses, calls with
  positional arguments and tuples, on one line. On a text outside this alphabet (strings,
  comparisons, subscripts, attributes, keyword arguments, the other keywords) the model
  answers with a syntax error, which the host does not always do; no theorem below uses
  \<open>ast_parse\<close> on such a text. Every syntax error carries the same message.
\<close>

datatype token = LITERAL const_value | NAME string | OP string | LPAR | RPAR | COMMA

definition syntax_error :: exn where
  "syntax_error = Exn SyntaxError ''invalid syntax (<unknown>, line 1)''"

definition is_digit :: "char \<Rightarrow> bool" where
  "is_digit c = (c \<in> set ''0123456789'')"

definition is_hexdigit :: "char \<Rightarrow> bool" where
  "is_hexdigit c = (c \<in> set ''0123456789abcdefABCDEF'')"

definition is_octdigit :: "char \<Rightarrow> bool" where
  "is_octdigit c = (c \<in> set ''01234567'')"

definition is_bindigit :: "char \<Rightarrow> bool" where
  "is_bindigit c = (c \<in> set ''01'')"

definition is_name_start :: "char \<Rightarrow> bool" where
  "is_name_start c = (c \<in> set ''abcdefghijklmnopqrstuvwxyzABCDEFGHIJKLMNOPQRSTUVWXYZ_'')"

definition is_name_char :: "char \<Rightarrow> bool" where
  "is_name_char c = (is_name_start c \<or> is_digit c)"

definition is_blank :: "char \<Rightarrow> bool" where
  "is_blank c = (c = CHR '' '' \<or> c = CHR 0x09)"

fun index_of :: "char \<Rightarrow> string \<Rightarrow> nat" where
  "index_of c [] = 0"
| "index_of c (d # ds) = (if c = d then 0 else Suc (index_of c ds))"

definition digit_value :: "char \<Rightarrow> nat" where
  "digit_value c =
     (if c \<in> set ''ABCDEF'' then 10 + index_of c ''ABCDEF'' else index_of c ''0123456789abcdef'')"

definition number_of :: "nat \<Rightarrow> string \<Rightarrow> nat" where
  "number_of base ds = foldl (\<lambda>a c. a * base + digit_value c) 0 ds"

text \<open>
  \<^verbatim>\<open>digit (["_"] digit)*\<close>: the digits read, without the underscores, and the rest of the
  text; \<open>None\<close> when an underscore is not followed by a digit.
\<close>

fun digitpart :: "(char \<Rightarrow> bool) \<Rightarrow> string \<Rightarrow> string \<Rightarrow> (string \<times> string) option" where
  "digitpart isd acc [] = Some (acc, [])"
| "digitpart isd acc [c] =
     (if isd c then Some (acc @ [c], []) else if c = CHR ''_'' then None else Some (acc, [c]))"
| "digitpart isd acc (c # d # ds) =
     (if isd c then digitpart isd (acc @ [c]) (d # ds)
      else if c = CHR ''_'' then (if isd d then digitpart isd (acc @ [d]) ds else None)
      else Some (acc, c # d # ds))"

definition scan_radix :: "nat \<Rightarrow> (char \<Rightarrow> bool) \<Rightarrow> string \<Rightarrow> exn + const_value \<times> string" where
  "scan_radix base isd s =
     (case digitpart isd [] s of
        None \<Rightarrow> Inl syntax_error
      | Some (ds, rest) \<Rightarrow>
          if ds = [] then Inl syntax_error else Inr (CInt (int (number_of base ds)), rest))"

text \<open>The fraction: \<open>None\<close> when there is no point, else the digits after it.\<close>

definition scan_fraction :: "string \<Rightarrow> (string option \<times> string) option" where
  "scan_fraction s =
     (case s of
        [] \<Rightarrow> Some (None, s)
      | c # r \<Rightarrow>
          if c \<noteq> CHR ''.'' then Some (None, s)
          else (case r of
                  [] \<Rightarrow> Some (Some [], r)
                | d # _ \<Rightarrow>
                    if is_digit d
                    then (case digitpart is_digit [] r of
                            None \<Rightarrow> None
                          | Some (ds, rest) \<Rightarrow> Some (Some ds, rest))
                    else Some (Some [], r)))"

text \<open>The exponent, read only when a digit follows the \<^verbatim>\<open>e\<close> and its sign.\<close>

definition scan_exponent :: "string \<Rightarrow> (string option \<times> string) option" where
  "scan_exponent s =
     (case s of
        e # d # r \<Rightarrow>
          if e = CHR ''e'' \<or> e = CHR ''E'' then
            (if is_digit d
             then (case digitpart is_digit [] (d # r) of
                     None \<Rightarrow> None
                   | Some (ds, rest) \<Rightarrow> Some (Some (''e'' @ ds), rest))
             else if (d = CHR ''+'' \<or> d = CHR ''-'') \<and> (case r of [] \<Rightarrow> False | x # _ \<Rightarrow> is_digit x)
             then (case digitpart is_digit [] r of
                     None \<Rightarrow> None
                   | Some (ds, rest) \<Rightarrow> Some (Some (''e'' @ [d] @ ds), rest))
             else Some (None, s))
          else Some (None, s)
      | _ \<Rightarrow> Some (None, s))"

definition is_imag_suffix :: "string \<Rightarrow> bool" where
  "is_imag_suffix s = (case s of [] \<Rightarrow> False | c # _ \<Rightarrow> c = CHR ''j'' \<or> c = CHR ''J'')"

text \<open>
  A decimal literal: an integer, a float (with a point or an exponent) or an imaginary
  number. A decimal integer with more than one digit does not start with a zero, unless all
  its digits are zeros.
\<close>

definition scan_decimal :: "host \<Rightarrow> string \<Rightarrow> exn + const_value \<times> string" where
  "scan_decimal fp s =
     (case digitpart is_digit [] s of
        None \<Rightarrow> Inl syntax_error
      | Some (ip, r1) \<Rightarrow>
          (case scan_fraction r1 of
             None \<Rightarrow> Inl syntax_error
           | Some (frac, r2) \<Rightarrow>
               (case scan_exponent r2 of
                  None \<Rightarrow> Inl syntax_error
                | Some (ex, r3) \<Rightarrow>
                    let lit = ip @ (case frac of None \<Rightarrow> [] | Some ds \<Rightarrow> ''.'' @ ds)
                                  @ (case ex of None \<Rightarrow> [] | Some t \<Rightarrow> t)
                    in if ip = [] \<and> (frac = None \<or> frac = Some []) then Inl syntax_error
                       else if is_imag_suffix r3
                         then Inr (CImag (float_of_literal fp lit), tl r3)
                       else if frac \<noteq> None \<or> ex \<noteq> None
                         then Inr (CFloat (float_of_literal fp lit), r3)
                       else if 1 < length ip \<and> hd ip = CHR ''0'' \<and> (\<exists>c \<in> set ip. c \<noteq> CHR ''0'')
                         then Inl syntax_error
                       else Inr (CInt (int (number_of 10 ip)), r3))))"

definition scan_number :: "host \<Rightarrow> string \<Rightarrow> exn + const_value \<times> string" where
  "scan_number fp s =
     (case s of
        z # x # r \<Rightarrow>
          if z = CHR ''0'' \<and> (x = CHR ''x'' \<or> x = CHR ''X'') then scan_radix 16 is_hexdigit r
          else if z = CHR ''0'' \<and> (x = CHR ''o'' \<or> x = CHR ''O'') then scan_radix 8 is_octdigit r
          else if z = CHR ''0'' \<and> (x = CHR ''b'' \<or> x = CHR ''B'') then scan_radix 2 is_bindigit r
          else scan_decimal fp s
      | _ \<Rightarrow> scan_decimal fp s)"

definition kwlist :: "string list" where
  "kwlist =
     [''and'', ''as'', ''assert'', ''async'', ''await'', ''break'', ''class'', ''continue'',
      ''def'', ''del'', ''elif'', ''else'', ''except'', ''finally'', ''for'', ''from'',
      ''global'', ''if'', ''import'', ''in'', ''is'', ''lambda'', ''nonlocal'', ''not'', ''or'',
      ''pass'', ''raise'', ''return'', ''try'', ''while'', ''with'', ''yield'']"

definition name_token :: "string \<Rightarrow> exn + token" where
  "name_token w =
     (if w = ''True'' then Inr (LITERAL (CBool True))
      else if w = ''False'' then Inr (LITERAL (CBool False))
      else if w = ''None'' then Inr (LITERAL CNone)
      else if w \<in> set kwlist then Inl syntax_error
      else Inr (NAME w))"

definition operator_chars :: string where
  "operator_chars = ''+-*/%@&|^~''"

text \<open>The next token and the rest of the text, for a text that starts with no blank.\<close>

definition next_token :: "host \<Rightarrow> string \<Rightarrow> exn + token \<times> string" where
  "next_token fp s =
     (case s of
        [] \<Rightarrow> Inl syntax_error
      | c # cs \<Rightarrow>
          if is_digit c \<or> (c = CHR ''.'' \<and> (case cs of [] \<Rightarrow> False | d # _ \<Rightarrow> is_digit d))
            then (case scan_number fp s of
                    Inl e \<Rightarrow> Inl e
                  | Inr (v, rest) \<Rightarrow> Inr (LITERAL v, rest))
          else if is_name_start c
            then (case name_token (takeWhile is_name_char s) of
                    Inl e \<Rightarrow> Inl e
                  | Inr t \<Rightarrow> Inr (t, dropWhile is_name_char s))
          else if c = CHR ''('' then Inr (LPAR, cs)
          else if c = CHR '')'' then Inr (RPAR, cs)
          else if c = CHR '','' then Inr (COMMA, cs)
          else if take 2 s \<in> set [''**'', ''//'', ''<<'', ''>>''] then Inr (OP (take 2 s), drop 2 s)
          else if c \<in> set operator_chars then Inr (OP [c], cs)
          else Inl syntax_error)"

text \<open>
  Every token takes at least one character, so the length of the text is fuel enough; the
  model answers as the host does on a text too long for it when the fuel is gone.
\<close>

definition out_of_memory :: exn where
  "out_of_memory = Exn MemoryError ''s_push: parser stack overflow''"

fun tokenize :: "nat \<Rightarrow> host \<Rightarrow> string \<Rightarrow> exn + token list" where
  "tokenize n fp [] = Inr []"
| "tokenize 0 fp (c # cs) = Inl out_of_memory"
| "tokenize (Suc n) fp (c # cs) =
     (if is_blank c then tokenize n fp cs
      else (case next_token fp (c # cs) of
              Inl e \<Rightarrow> Inl e
            | Inr (t, rest) \<Rightarrow>
                (case tokenize n fp rest of Inl e \<Rightarrow> Inl e | Inr ts \<Rightarrow> Inr (t # ts))))"

text \<open>
  The binary operators by level, from the loosest: \<^verbatim>\<open>|\<close>, \<^verbatim>\<open>^\<close>, \<^verbatim>\<open>&\<close>, the shifts, the sums,
  the terms. \<^verbatim>\<open>^\<close> is the bitwise exclusive or; the power is \<^verbatim>\<open>**\<close>.
\<close>

definition binop_at :: "nat \<Rightarrow> string \<Rightarrow> operator option" where
  "binop_at lvl s =
     (if lvl = 0 \<and> s = ''|'' then Some BitOr
      else if lvl = 1 \<and> s = ''^'' then Some BitXor
      else if lvl = 2 \<and> s = ''&'' then Some BitAnd
      else if lvl = 3 \<and> s = ''<<'' then Some LShift
      else if lvl = 3 \<and> s = ''>>'' then Some RShift
      else if lvl = 4 \<and> s = ''+'' then Some Add
      else if lvl = 4 \<and> s = ''-'' then Some Sub
      else if lvl = 5 \<and> s = ''*'' then Some Mult
      else if lvl = 5 \<and> s = ''/'' then Some Div
      else if lvl = 5 \<and> s = ''//'' then Some FloorDiv
      else if lvl = 5 \<and> s = ''%'' then Some Mod
      else if lvl = 5 \<and> s = ''@'' then Some MatMult
      else None)"

definition unaryop_of :: "string \<Rightarrow> unaryop option" where
  "unaryop_of s =
     (if s = ''-'' then Some USub else if s = ''+'' then Some UAdd
      else if s = ''~'' then Some Invert else None)"

datatype 'a presult = Ok 'a "token list" | Bad | NoFuel

fun and_then :: "'a presult \<Rightarrow> ('a \<Rightarrow> token list \<Rightarrow> 'b presult) \<Rightarrow> 'b presult" where
  "and_then (Ok a rest) k = k a rest"
| "and_then Bad k = Bad"
| "and_then NoFuel k = NoFuel"

fun peek_op :: "token list \<Rightarrow> (string \<times> token list) option" where
  "peek_op (OP s # rest) = Some (s, rest)"
| "peek_op _ = None"

fun after :: "token \<Rightarrow> token list \<Rightarrow> token list option" where
  "after t [] = None"
| "after t (u # rest) = (if t = u then Some rest else None)"

text \<open>
  The descent, one rule of the grammar for each case: the left-associative levels (\<open>Bin\<close>
  with its loop \<open>Loop\<close>), \<^verbatim>\<open>factor: ('+'|'-'|'~') factor | power\<close>,
  \<^verbatim>\<open>power: atom_expr ['**' factor]\<close>, the call trailers, the atoms, and the rest of an
  argument list or of a tuple up to its closing parenthesis (a comma may end it). The first
  argument bounds the depth of the descent.
\<close>

datatype rule =
    Bin nat | Loop nat node | Factor | Power | Trailers node | Atom
  | Args "node option" "node list"

fun build :: "node option \<Rightarrow> node list \<Rightarrow> node" where
  "build (Some func) args = Call func args []"
| "build None elts = OtherNode ''Tuple''"

fun descend :: "nat \<Rightarrow> rule \<Rightarrow> token list \<Rightarrow> node presult" where
  "descend 0 r toks = NoFuel"
| "descend (Suc n) (Bin lvl) toks =
     (if 6 \<le> lvl then descend n Factor toks
      else and_then (descend n (Bin (Suc lvl)) toks) (\<lambda>lhs rest. descend n (Loop lvl lhs) rest))"
| "descend (Suc n) (Loop lvl lhs) toks =
     (case peek_op toks of
        None \<Rightarrow> Ok lhs toks
      | Some (s, rest) \<Rightarrow>
          (case binop_at lvl s of
             None \<Rightarrow> Ok lhs toks
           | Some op \<Rightarrow>
               and_then (descend n (Bin (Suc lvl)) rest)
                 (\<lambda>rhs rest'. descend n (Loop lvl (BinOp lhs op rhs)) rest')))"
| "descend (Suc n) Factor toks =
     (case peek_op toks of
        None \<Rightarrow> descend n Power toks
      | Some (s, rest) \<Rightarrow>
          (case unaryop_of s of
             None \<Rightarrow> Bad
           | Some u \<Rightarrow> and_then (descend n Factor rest) (\<lambda>e rest'. Ok (UnaryOp u e) rest')))"
| "descend (Suc n) Power toks =
     and_then (descend n Atom toks) (\<lambda>a rest.
       and_then (descend n (Trailers a) rest) (\<lambda>b rest'.
         case peek_op rest' of
           None \<Rightarrow> Ok b rest'
         | Some (s, rest'') \<Rightarrow>
             if s = ''**''
             then and_then (descend n Factor rest'') (\<lambda>c r. Ok (BinOp b Pow_op c) r)
             else Ok b rest'))"
| "descend (Suc n) (Trailers a) toks =
     (case after LPAR toks of
        None \<Rightarrow> Ok a toks
      | Some rest \<Rightarrow>
          and_then (descend n (Args (Some a) []) rest) (\<lambda>c rest'. descend n (Trailers c) rest'))"
| "descend (Suc n) Atom toks =
     (case toks of
        [] \<Rightarrow> Bad
      | LITERAL c # rest \<Rightarrow> Ok (Constant c) rest
      | NAME x # rest \<Rightarrow> Ok (Name x) rest
      | LPAR # rest \<Rightarrow>
          (case after RPAR rest of
             Some r \<Rightarrow> Ok (OtherNode ''Tuple'') r
           | None \<Rightarrow>
               and_then (descend n (Bin 0) rest) (\<lambda>e rest'.
                 case after RPAR rest' of
                   Some r \<Rightarrow> Ok e r
                 | None \<Rightarrow>
                     (case after COMMA rest' of
                        Some r \<Rightarrow> descend n (Args None [e]) r
                      | None \<Rightarrow> Bad)))
      | _ \<Rightarrow> Bad)"
| "descend (Suc n) (Args f acc) toks =
     (case after RPAR toks of
        Some rest \<Rightarrow> Ok (build f acc) rest
      | None \<Rightarrow>
          and_then (descend n (Bin 0) toks) (\<lambda>e rest.
            case after RPAR rest of
              Some r \<Rightarrow> Ok (build f (acc @ [e])) r
            | None \<Rightarrow>
                (case after COMMA rest of
                   Some r \<Rightarrow> descend n (Args f (acc @ [e])) r
                 | None \<Rightarrow> Bad)))"

text \<open>
  \<^verbatim>\<open>ast.parse(expr, mode='eval').body\<close> on the fragment. A text of blanks only ends before an
  expression starts; a blank at the start of any other text is an unexpected indent; a comma
  after the expression makes a tuple. The host's parser has a stack of bounded depth; the
  model's descent has twelve steps for each token, which no text of the examples exhausts.
\<close>

definition parse_tokens :: "token list \<Rightarrow> exn + node" where
  "parse_tokens toks =
     (let fuel = 12 * Suc (length toks) in
      case descend fuel (Bin 0) toks of
        Ok e rest \<Rightarrow>
          (case rest of
             [] \<Rightarrow> Inr e
           | t # ts \<Rightarrow>
               if t = COMMA
               then (case descend fuel (Args None [e]) (ts @ [RPAR]) of
                       Ok tuple [] \<Rightarrow> Inr tuple
                     | Ok tuple (u # us) \<Rightarrow> Inl syntax_error
                     | Bad \<Rightarrow> Inl syntax_error
                     | NoFuel \<Rightarrow> Inl out_of_memory)
               else Inl syntax_error)
      | Bad \<Rightarrow> Inl syntax_error
      | NoFuel \<Rightarrow> Inl out_of_memory)"

definition ast_parse :: "host \<Rightarrow> string \<Rightarrow> exn + node" where
  "ast_parse fp s =
     (case tokenize (length s) fp s of
        Inl e \<Rightarrow> Inl e
      | Inr toks \<Rightarrow>
          if toks = [] then Inl syntax_error
          else if is_blank (hd s) then Inl syntax_error
          else parse_tokens toks)"

subsection \<open>Predicates of the statements\<close>

text \<open>
  What \<^verbatim>\<open>except Exception\<close> can catch: a result that, when it is an exception, derives from
  \<^verbatim>\<open>Exception\<close>; and a result that moreover, when it is a value, is a number.
\<close>

definition raises_Exception_only :: "exn + 'a \<Rightarrow> bool" where
  "raises_Exception_only r = (case r of Inl e \<Rightarrow> derives_Exception (cls e) | Inr v \<Rightarrow> True)"

definition number_or_Exception :: "exn + pyval \<Rightarrow> bool" where
  "number_or_Exception r =
     (case r of Inl e \<Rightarrow> derives_Exception (cls e) | Inr v \<Rightarrow> is_number v)"

definition parser_raises_Exceptions :: "(string \<Rightarrow> exn + node) \<Rightarrow> bool" where
  "parser_raises_Exceptions parse = (\<forall>s. raises_Exception_only (parse s))"

definition plugins_raise_Exceptions :: "plugins \<Rightarrow> bool" where
  "plugins_raise_Exceptions P = (\<forall>n f args. P n = Some f \<longrightarrow> raises_Exception_only (f args))"


text \<open>
  The allow-list, written out: the node shapes that \<^verbatim>\<open>_eval_node\<close> is meant to answer for.
\<close>

definition builtin_names :: "string set" where
  "builtin_names = {''sin'', ''cos'', ''tan'', ''log'', ''sqrt'', ''abs'', ''round''}"

definition constant_names :: "string set" where
  "constant_names = {''pi'', ''e'', ''phi''}"




fun is_zero :: "pyval \<Rightarrow> bool" where
  "is_zero (PyInt n) = (n = 0)"
| "is_zero (PyFloat x) = f_is_zero x"
| "is_zero (PyComplex x y) = (f_is_zero x \<and> f_is_zero y)"
| "is_zero PyNone = False"

fun is_int :: "pyval \<Rightarrow> bool" where
  "is_int (PyInt _) = True"
| "is_int _ = False"

subsection \<open>Registries of the examples\<close>

text \<open>A plugin that raises an exception of a class derived from \<^verbatim>\<open>Exception\<close>.\<close>

definition failing_plugin :: plugins where
  "failing_plugin =
     [''lookup'' \<mapsto> (\<lambda>args. Inl (Exn (OtherException ''KeyError'') ''no such key''))]"

text \<open>A plugin that returns numbers: \<^verbatim>\<open>twice(n)\<close> doubles an int and rejects anything else.\<close>

definition doubling_plugin :: plugins where
  "doubling_plugin =
     [''twice'' \<mapsto> (\<lambda>args. case args of
                         [PyInt n] \<Rightarrow> Inr (PyInt (2 * n))
                       | _ \<Rightarrow> Inl (Exn TypeError ''twice() takes one int''))]"

text \<open>
  The store before any plugin is loaded, a plugin directory whose one file defines \<^verbatim>\<open>abs\<close>,
  and a directory of three entries of which two are Python files that both define \<^verbatim>\<open>area\<close>.
\<close>

definition initial_state :: calc_state where
  "initial_state = \<lparr>PLUGINS = Map.empty, stdout = []\<rparr>"

definition override_dir :: "(string \<times> (exn + (string \<times> pyobj) list)) list option" where
  "override_dir =
     Some [(''override.py'', Inr [(''abs'', Callable (\<lambda>args. Inr (PyInt 42)))])]"

definition two_files_dir :: "(string \<times> (exn + (string \<times> pyobj) list)) list option" where
  "two_files_dir =
     Some [(''a.py'', Inr [(''area'', Callable (\<lambda>args. Inr (PyInt 1)))]),
           (''notes.txt'', Inr [(''area'', Callable (\<lambda>args. Inr (PyInt 2)))]),
           (''b.py'', Inr [(''_hidden'', Callable (\<lambda>args. Inr (PyInt 3))),
                           (''area'', Callable (\<lambda>args. Inr (PyInt 4))),
                           (''version'', NotCallable)])]"

section \<open>Properties\<close>

subsection \<open>What the operators and the built-ins can return\<close>

lemma number_or_Exception_simps [simp]:
  "number_or_Exception (Inl e) = derives_Exception (cls e)"
  "number_or_Exception (Inr v) = is_number v"
  by (simp_all add: number_or_Exception_def)

lemma raises_Exception_only_simps [simp]:
  "raises_Exception_only (Inl e) = derives_Exception (cls e)"
  "raises_Exception_only (Inr v) = True"
  by (simp_all add: raises_Exception_only_def)

lemma number_or_Exception_raises: "number_or_Exception r \<Longrightarrow> raises_Exception_only r"
  by (cases r) simp_all

lemma math_error_exc [simp]: "derives_Exception (cls (math_error e))"
  by (cases e) simp_all

lemma as_double_exc: "as_double fp v = Inl e \<Longrightarrow> derives_Exception (cls e)"
  by (cases v) (auto simp: too_large_def split: option.splits if_splits)

lemma as_complex_exc: "as_complex fp v = Inl e \<Longrightarrow> derives_Exception (cls e)"
  by (cases v) (auto simp: too_large_def split: option.splits if_splits sum.splits)

lemma both_double_good:
  "(\<And>x y. number_or_Exception (k x y)) \<Longrightarrow> number_or_Exception (both_double fp a b k)"
  by (auto simp: both_double_def dest: as_double_exc split: sum.splits)

lemma both_complex_good:
  "(\<And>x y. number_or_Exception (k x y)) \<Longrightarrow> number_or_Exception (both_complex fp a b k)"
  by (auto simp: both_complex_def dest: as_complex_exc split: sum.splits)

lemma complex_pow_good: "number_or_Exception (complex_pow fp x y)"
  by (simp add: complex_pow_def split: cpow_result.splits)

lemma float_pow_good: "number_or_Exception (float_pow fp x y)"
  by (simp add: float_pow_def complex_pow_good split: pow_result.splits)

lemma arith_good: "number_or_Exception (arith fp s iop fop cop a b)"
  unfolding arith_def
  by (cases a; cases b) (simp_all add: unsupported_def complex_val_def both_double_good both_complex_good)

lemma truediv_good: "number_or_Exception (truediv fp a b)"
  unfolding truediv_def
  by (cases a; cases b)
     (simp_all add: unsupported_def complex_val_def both_double_good both_complex_good
        split: option.splits)

lemma mod_op_good: "number_or_Exception (mod_op fp a b)"
  unfolding mod_op_def
  by (cases a; cases b) (simp_all add: unsupported_def both_double_good)

lemma pow_good: "number_or_Exception (pow fp a b)"
  unfolding pow_def
  by (cases a; cases b)
     (simp_all add: unsupported_def both_double_good both_complex_good float_pow_good complex_pow_good)

lemma neg_good: "number_or_Exception (neg fp a)"
  by (cases a) simp_all

lemma SAFE_OPERATORS_good: "SAFE_OPERATORS fp op = Some f \<Longrightarrow> number_or_Exception (f a b)"
  by (cases op) (auto simp: add_def sub_def mul_def arith_good truediv_good mod_op_good pow_good)

lemma SAFE_OPERATORS_unary_good: "SAFE_OPERATORS_unary fp op = Some f \<Longrightarrow> number_or_Exception (f a)"
  by (cases op) (auto simp: neg_good)

lemma math_1_good: "number_or_Exception (math_1 fp name f args)"
  by (auto simp: math_1_def arity_error_def dest: as_double_exc split: list.splits sum.splits math_err.splits)

lemma loghelper_exc: "loghelper fp v = Inl e \<Longrightarrow> derives_Exception (cls e)"
  by (cases v) (auto dest: as_double_exc simp: too_large_def split: sum.splits if_splits option.splits math_err.splits)

lemma math_log_good: "number_or_Exception (math_log fp args)"
  by (auto simp: math_log_def arity_error_def dest: loghelper_exc split: list.splits sum.splits)

lemma builtin_abs_good: "number_or_Exception (builtin_abs fp args)"
proof -
  have "number_or_Exception (abs_value fp v)" for v
    by (cases v) (simp_all split: option.splits)
  then show ?thesis
    by (auto simp: builtin_abs_def arity_error_def split: list.splits)
qed

lemma round_value_good: "number_or_Exception (round_value fp v nd)"
  by (cases v; cases nd) (simp_all add: not_index_def no_round_def split: option.splits)

lemma builtin_round_good: "number_or_Exception (builtin_round fp args)"
  by (auto simp: builtin_round_def arity_error_def round_value_good split: list.splits)

lemma SAFE_FUNCTIONS_good: "SAFE_FUNCTIONS fp name = Some f \<Longrightarrow> number_or_Exception (f args)"
  by (auto simp: SAFE_FUNCTIONS_def math_1_good math_log_good builtin_abs_good builtin_round_good
      split: if_splits)


lemma eval_raises:
  assumes "\<forall>n f args. P n = Some f \<longrightarrow> raises_Exception_only (f args)"
  shows "raises_Exception_only (fst (eval_node fp P node lg))"
    and "raises_Exception_only (fst (eval_args fp P nodes lg))"
  using assms
proof (induction fp P node lg and fp P nodes lg rule: eval_node_eval_args.induct)
  case (1 fp P c lg)
  then show ?case by (simp add: unsafe_def split: option.splits)
next
  case (2 fp P left op right lg)
  then show ?case
    using SAFE_OPERATORS_good [THEN number_or_Exception_raises]
    by (auto simp: unsafe_def split: prod.splits sum.splits option.splits)
next
  case (3 fp P op operand lg)
  then show ?case
    using SAFE_OPERATORS_unary_good [THEN number_or_Exception_raises]
    by (auto simp: unsafe_def split: prod.splits sum.splits option.splits)
next
  case (4 fp P func args kws lg)
  then show ?case
    using SAFE_FUNCTIONS_good [THEN number_or_Exception_raises]
    by (auto simp: unsafe_def split: prod.splits sum.splits option.splits)
next
  case (5 fp P ident lg)
  then show ?case by (simp add: unsafe_def split: option.splits)
next
  case (6 fp P c lg)
  then show ?case by (simp add: unsafe_def)
next
  case (7 fp P lg)
  then show ?case by simp
next
  case (8 fp P arg rest lg)
  then show ?case by (auto split: prod.splits sum.splits)
qed


subsection \<open>The allow-list\<close>



lemma dom_SAFE_FUNCTIONS: "dom (SAFE_FUNCTIONS fp) = builtin_names"
  unfolding builtin_names_def by (auto simp: SAFE_FUNCTIONS_def split: if_splits)

lemma dom_CONSTANTS: "dom (CONSTANTS fp) = constant_names"
  unfolding constant_names_def by (auto simp: CONSTANTS_def split: if_splits)

lemma SAFE_FUNCTIONS_None: "n \<notin> builtin_names \<Longrightarrow> SAFE_FUNCTIONS fp n = None"
  using dom_SAFE_FUNCTIONS [of fp] by blast

lemma CONSTANTS_None: "n \<notin> constant_names \<Longrightarrow> CONSTANTS fp n = None"
  using dom_CONSTANTS [of fp] by blast

lemma eval_node_Call_unknown:
  "func_id func = None \<or> (\<exists>n. func_id func = Some n \<and> SAFE_FUNCTIONS fp n = None \<and> P n = None)
     \<Longrightarrow> \<exists>e. fst (eval_node fp P (Call func args kws) lg) = Inl e"
  by (auto split: prod.splits sum.splits)




subsection \<open>The handler of the entry point\<close>

lemma reraise_Exception:
  "derives_Exception (cls e) \<Longrightarrow> reraise e = Exn ValueError (''Invalid expression: '' @ msg e)"
  by (simp add: reraise_def)

lemma fst_eval_expr:
  "fst (eval_expr parse fp P expr) =
     (case fst (try_body parse fp P expr) of Inl e \<Rightarrow> Inl (reraise e) | Inr v \<Rightarrow> Inr v)"
  by (simp add: eval_expr_def split: prod.splits sum.splits)


lemma try_body_raises:
  "parser_raises_Exceptions parse \<Longrightarrow> plugins_raise_Exceptions P
     \<Longrightarrow> raises_Exception_only (fst (try_body parse fp P expr))"
  unfolding try_body_def parser_raises_Exceptions_def plugins_raise_Exceptions_def
  using eval_raises(1) [of P fp _ "[]"]
  by (cases "parse expr") (auto simp: raises_Exception_only_def split: sum.splits)

subsection \<open>The errors of the parser fragment\<close>

lemma scan_radix_error: "scan_radix base isd s = Inl e \<Longrightarrow> e = syntax_error"
  by (auto simp: scan_radix_def split: option.splits prod.splits if_splits)

lemma scan_decimal_error: "scan_decimal fp s = Inl e \<Longrightarrow> e = syntax_error"
  by (auto simp: scan_decimal_def Let_def split: option.splits prod.splits if_splits)

lemma scan_number_error: "scan_number fp s = Inl e \<Longrightarrow> e = syntax_error"
  by (auto simp: scan_number_def dest: scan_radix_error scan_decimal_error
      split: list.splits if_splits)

lemma name_token_error: "name_token w = Inl e \<Longrightarrow> e = syntax_error"
  by (auto simp: name_token_def split: if_splits)

lemma next_token_error: "next_token fp s = Inl e \<Longrightarrow> e = syntax_error"
  by (auto simp: next_token_def dest: scan_number_error name_token_error
      split: list.splits if_splits sum.splits prod.splits)

lemma tokenize_error: "tokenize n fp s = Inl e \<Longrightarrow> e = syntax_error \<or> e = out_of_memory"
  by (induction n fp s rule: tokenize.induct)
     (auto dest: next_token_error split: if_splits sum.splits prod.splits)

lemma parse_tokens_error: "parse_tokens toks = Inl e \<Longrightarrow> e = syntax_error \<or> e = out_of_memory"
  by (auto simp: parse_tokens_def Let_def split: presult.splits list.splits if_splits)

lemma ast_parse_error: "ast_parse fp s = Inl e \<Longrightarrow> e = syntax_error \<or> e = out_of_memory"
  by (auto simp: ast_parse_def dest: tokenize_error parse_tokens_error split: sum.splits if_splits)

lemma ast_parse_raises_Exceptions: "parser_raises_Exceptions (ast_parse fp)"
  by (auto simp: parser_raises_Exceptions_def raises_Exception_only_def syntax_error_def
      out_of_memory_def dest!: ast_parse_error split: sum.splits)

subsection \<open>The claims\<close>

text \<open>
  C10. \<^verbatim>\<open>eval_expr\<close> has one error channel. When the parser and the plugin callables raise
  only exceptions derived from \<^verbatim>\<open>Exception\<close>, it returns a value or raises \<^verbatim>\<open>ValueError\<close> with
  a message that starts with "Invalid expression: ". Whatever the parser and the plugins are,
  an exception derived from \<^verbatim>\<open>Exception\<close> that comes up in the parse or in the walk goes
  out as that \<^verbatim>\<open>ValueError\<close>, with the text of the exception after the prefix, and a value
  goes out as it is.
\<close>

theorem eval_expr_single_error_channel:
  "(parser_raises_Exceptions parse \<and> plugins_raise_Exceptions P \<longrightarrow>
      (\<exists>v. fst (eval_expr parse fp P expr) = Inr v) \<or>
      (\<exists>m. fst (eval_expr parse fp P expr) = Inl (Exn ValueError (''Invalid expression: '' @ m))))
   \<and> (fst (try_body parse fp P expr) = Inl e \<and> derives_Exception (cls e) \<longrightarrow>
        fst (eval_expr parse fp P expr) = Inl (Exn ValueError (''Invalid expression: '' @ msg e)))
   \<and> (fst (try_body parse fp P expr) = Inr v \<longrightarrow> fst (eval_expr parse fp P expr) = Inr v)"
proof (intro conjI impI)
  assume "parser_raises_Exceptions parse \<and> plugins_raise_Exceptions P"
  then have "raises_Exception_only (fst (try_body parse fp P expr))"
    by (simp add: try_body_raises)
  then show "(\<exists>v. fst (eval_expr parse fp P expr) = Inr v) \<or>
      (\<exists>m. fst (eval_expr parse fp P expr) = Inl (Exn ValueError (''Invalid expression: '' @ m)))"
    by (cases "fst (try_body parse fp P expr)") (simp_all add: fst_eval_expr reraise_Exception)
next
  assume "fst (try_body parse fp P expr) = Inl e \<and> derives_Exception (cls e)"
  then show "fst (eval_expr parse fp P expr) = Inl (Exn ValueError (''Invalid expression: '' @ msg e))"
    by (simp add: fst_eval_expr reraise_Exception)
next
  assume "fst (try_body parse fp P expr) = Inr v"
  then show "fst (eval_expr parse fp P expr) = Inr v"
    by (simp add: fst_eval_expr)
qed

text \<open>
  At the texts "1 / 0" and "lookup(2) + 1", with a plugin that raises a \<^verbatim>\<open>KeyError\<close>: the
  division by zero of the operator and the exception of the plugin both go out as
  \<^verbatim>\<open>ValueError\<close>.
\<close>

lemma failing_plugin_raises: "plugins_raise_Exceptions failing_plugin"
  by (auto simp: plugins_raise_Exceptions_def failing_plugin_def split: if_splits)

lemma try_div: "try_body (ast_parse fp) fp failing_plugin ''1 / 0'' = (Inl (Exn ZeroDivisionError ''division by zero''), [])"
  by code_simp

lemma try_lookup: "try_body (ast_parse fp) fp failing_plugin ''lookup(2) + 1'' = (Inl (Exn (OtherException ''KeyError'') ''no such key''), [(Plugin ''lookup'', [PyInt 2])])"
  by code_simp

theorem eval_expr_single_error_channel_witness:
  "\<forall>fp.
     ((\<exists>v. fst (eval_expr (ast_parse fp) fp failing_plugin ''1 / 0'') = Inr v) \<or>
      (\<exists>m. fst (eval_expr (ast_parse fp) fp failing_plugin ''1 / 0'')
             = Inl (Exn ValueError (''Invalid expression: '' @ m))))
   \<and> fst (eval_expr (ast_parse fp) fp failing_plugin ''1 / 0'')
        = Inl (Exn ValueError ''Invalid expression: division by zero'')
   \<and> fst (eval_expr (ast_parse fp) fp failing_plugin ''lookup(2) + 1'')
        = Inl (Exn ValueError ''Invalid expression: no such key'')"
proof (intro allI conjI)
  fix fp
  note t = eval_expr_single_error_channel
  show "(\<exists>v. fst (eval_expr (ast_parse fp) fp failing_plugin ''1 / 0'') = Inr v) \<or>
      (\<exists>m. fst (eval_expr (ast_parse fp) fp failing_plugin ''1 / 0'')
             = Inl (Exn ValueError (''Invalid expression: '' @ m)))"
    using t [of "ast_parse fp" failing_plugin fp "''1 / 0''"]
      ast_parse_raises_Exceptions failing_plugin_raises by blast
  show "fst (eval_expr (ast_parse fp) fp failing_plugin ''1 / 0'')
        = Inl (Exn ValueError ''Invalid expression: division by zero'')"
    using t [of "ast_parse fp" failing_plugin fp "''1 / 0''" "Exn ZeroDivisionError ''division by zero''"]
    by (simp add: try_div)
  show "fst (eval_expr (ast_parse fp) fp failing_plugin ''lookup(2) + 1'')
        = Inl (Exn ValueError ''Invalid expression: no such key'')"
    using t [of "ast_parse fp" failing_plugin fp "''lookup(2) + 1''" "Exn (OtherException ''KeyError'') ''no such key''"]
    by (simp add: try_lookup)
qed







lemma names_disjoint: "ident \<in> builtin_names \<Longrightarrow> ident \<notin> constant_names"
  by (auto simp: builtin_names_def constant_names_def)

text \<open>
  C9. The constants and the functions are looked up in different tables. A \<^verbatim>\<open>Name\<close> node
  whose name is no constant fails, with nothing invoked, also when the name is a built-in
  function or a plugin; no built-in function is a constant. A \<^verbatim>\<open>Call\<close> node whose name is
  in neither function table fails after its arguments are evaluated, also when the name is a
  constant.
\<close>

theorem namespaces_disjoint:
  "(ident \<notin> constant_names \<longrightarrow> eval_node fp P (Name ident) lg = (Inl unsafe, lg))
   \<and> (ident \<in> builtin_names \<longrightarrow> eval_node fp P (Name ident) lg = (Inl unsafe, lg))
   \<and> (parse expr = Inr (Name ident) \<and> ident \<notin> constant_names \<longrightarrow>
        eval_expr parse fp P expr
          = (Inl (Exn ValueError ''Invalid expression: Unsafe or unsupported expression.''), []))
   \<and> (n \<notin> builtin_names \<and> P n = None \<and> eval_args fp P args lg = (Inr vs, lg1) \<longrightarrow>
        eval_node fp P (Call (Name n) args kws) lg = (Inl unsafe, lg1))
   \<and> (n \<notin> builtin_names \<and> P n = None \<longrightarrow>
        (\<exists>e. fst (eval_node fp P (Call (Name n) args kws) lg) = Inl e))"
proof (intro conjI impI)
  show "eval_node fp P (Name ident) lg = (Inl unsafe, lg)" if "ident \<notin> constant_names"
    using that by (simp add: CONSTANTS_None)
  show "eval_node fp P (Name ident) lg = (Inl unsafe, lg)" if "ident \<in> builtin_names"
    using that by (simp add: CONSTANTS_None names_disjoint)
  show "eval_expr parse fp P expr
          = (Inl (Exn ValueError ''Invalid expression: Unsafe or unsupported expression.''), [])"
    if "parse expr = Inr (Name ident) \<and> ident \<notin> constant_names"
    using that by (simp add: eval_expr_def try_body_def CONSTANTS_None unsafe_def reraise_def)
  show "eval_node fp P (Call (Name n) args kws) lg = (Inl unsafe, lg1)"
    if "n \<notin> builtin_names \<and> P n = None \<and> eval_args fp P args lg = (Inr vs, lg1)"
    using that by (simp add: SAFE_FUNCTIONS_None)
  show "\<exists>e. fst (eval_node fp P (Call (Name n) args kws) lg) = Inl e"
    if "n \<notin> builtin_names \<and> P n = None"
    using that by (intro eval_node_Call_unknown) (simp add: SAFE_FUNCTIONS_None)
qed

text \<open>
  At the names \<^verbatim>\<open>sin\<close> (a built-in) and \<^verbatim>\<open>twice\<close> (a plugin) used as bare names, and at the
  constant \<^verbatim>\<open>pi\<close> used as the callee of a call.
\<close>

lemma parse_names:
  "ast_parse fp ''sin'' = Inr (Name ''sin'')"
  "ast_parse fp ''twice'' = Inr (Name ''twice'')"
  by code_simp+

theorem namespaces_disjoint_witness:
  "\<forall>fp.
     eval_node fp doubling_plugin (Name ''twice'') [] = (Inl unsafe, [])
   \<and> eval_node fp doubling_plugin (Name ''sin'') [] = (Inl unsafe, [])
   \<and> eval_expr (ast_parse fp) fp doubling_plugin ''sin''
       = (Inl (Exn ValueError ''Invalid expression: Unsafe or unsupported expression.''), [])
   \<and> eval_expr (ast_parse fp) fp doubling_plugin ''twice''
       = (Inl (Exn ValueError ''Invalid expression: Unsafe or unsupported expression.''), [])
   \<and> eval_node fp doubling_plugin (Call (Name ''pi'') [Constant (CInt 1)] []) [] = (Inl unsafe, [])
   \<and> (\<exists>e. fst (eval_node fp doubling_plugin (Call (Name ''pi'') [Constant (CInt 1)] []) []) = Inl e)"
proof (intro allI conjI)
  fix fp
  note t = namespaces_disjoint [of _ fp doubling_plugin]
  have c: "''twice'' \<notin> constant_names" "''sin'' \<notin> constant_names" "''sin'' \<in> builtin_names"
    "''pi'' \<notin> builtin_names" "doubling_plugin ''pi'' = None"
    by (simp_all add: constant_names_def builtin_names_def doubling_plugin_def)
  show "eval_node fp doubling_plugin (Name ''twice'') [] = (Inl unsafe, [])"
    using t [of "''twice''"] c by blast
  show "eval_node fp doubling_plugin (Name ''sin'') [] = (Inl unsafe, [])"
    using t [of "''sin''"] c by blast
  show "eval_expr (ast_parse fp) fp doubling_plugin ''sin''
       = (Inl (Exn ValueError ''Invalid expression: Unsafe or unsupported expression.''), [])"
    using t [of "''sin''" _ "ast_parse fp" "''sin''"] c parse_names [of fp] by blast
  show "eval_expr (ast_parse fp) fp doubling_plugin ''twice''
       = (Inl (Exn ValueError ''Invalid expression: Unsafe or unsupported expression.''), [])"
    using t [of "''twice''" _ "ast_parse fp" "''twice''"] c parse_names [of fp] by blast
  have a: "eval_args fp doubling_plugin [Constant (CInt 1)] [] = (Inr [PyInt 1], [])"
    by simp
  show "eval_node fp doubling_plugin (Call (Name ''pi'') [Constant (CInt 1)] []) [] = (Inl unsafe, [])"
    using t [of _ "[]" _ _ "''pi''" "[Constant (CInt 1)]" "[PyInt 1]" "[]" "[]"] c a by blast
  show "\<exists>e. fst (eval_node fp doubling_plugin (Call (Name ''pi'') [Constant (CInt 1)] []) []) = Inl e"
    using t [of _ _ _ _ "''pi''"] c by blast
qed

lemma SAFE_FUNCTIONS_Some: "n \<in> builtin_names \<Longrightarrow> \<exists>g. SAFE_FUNCTIONS fp n = Some g"
  using dom_SAFE_FUNCTIONS [of fp] by blast

lemma plugin_under_builtin_name:
  assumes "n \<in> builtin_names"
  shows "eval_node fp (P(n \<mapsto> f)) node lg = eval_node fp P node lg"
    and "eval_args fp (P(n \<mapsto> f)) nodes lg = eval_args fp P nodes lg"
proof (induction fp P node lg and fp P nodes lg rule: eval_node_eval_args.induct)
  case (4 fp P func args kws lg)
  show ?case
  proof (cases "func_id func = Some n")
    case True
    with assms SAFE_FUNCTIONS_Some [of n fp] "4.IH" show ?thesis
      by (auto split: prod.splits sum.splits)
  next
    case False
    with "4.IH" show ?thesis
      by (auto split: prod.splits sum.splits option.splits)
  qed
qed (auto split: prod.splits sum.splits option.splits)

lemma register_attrs_append:
  "register_attrs (xs @ ys) P = register_attrs ys (register_attrs xs P)"
  by (induction xs P rule: register_attrs.induct) simp_all

lemma load_files_append:
  "load_files (xs @ ys) st =
     (case load_files xs st of (None, st') \<Rightarrow> load_files ys st' | (Some e, st') \<Rightarrow> (Some e, st'))"
  by (induction xs st rule: load_files.induct) (simp_all split: sum.splits)

text \<open>
  C5, as the code has it. A call to a name of \<^verbatim>\<open>SAFE_FUNCTIONS\<close> invokes the built-in, whatever
  is registered under that name in \<^verbatim>\<open>PLUGINS\<close>: registering a plugin under a built-in name
  changes no evaluation. Among plugins the last registration wins: the last public callable
  of a module, and the last loaded file, is what the name stands for, and a call to a name
  that is no built-in invokes the plugin registered under it.
\<close>

theorem builtin_shadows_plugin:
  "(n \<in> builtin_names \<longrightarrow> eval_node fp (P(n \<mapsto> f)) node lg = eval_node fp P node lg)
   \<and> (\<not> startswith n ''_'' \<longrightarrow>
        register_attrs (attrs @ [(n, Callable g)]) P n = Some g)
   \<and> (load_files files st = (None, st') \<and> endswith filename ''.py'' \<and> \<not> startswith n ''_'' \<longrightarrow>
        load_files (files @ [(filename, Inr (attrs @ [(n, Callable g)]))]) st
          = (None, st'\<lparr>PLUGINS := register_attrs (attrs @ [(n, Callable g)]) (PLUGINS st')\<rparr>))
   \<and> (n \<notin> builtin_names \<and> P n = Some g \<and> eval_args fp P args lg = (Inr vs, lg1) \<longrightarrow>
        eval_node fp P (Call (Name n) args kws) lg = (g vs, lg1 @ [(Plugin n, vs)]))"
proof (intro conjI impI)
  show "eval_node fp (P(n \<mapsto> f)) node lg = eval_node fp P node lg" if "n \<in> builtin_names"
    using that by (rule plugin_under_builtin_name(1))
  show "register_attrs (attrs @ [(n, Callable g)]) P n = Some g" if "\<not> startswith n ''_''"
    using that by (simp add: register_attrs_append)
  show "load_files (files @ [(filename, Inr (attrs @ [(n, Callable g)]))]) st
          = (None, st'\<lparr>PLUGINS := register_attrs (attrs @ [(n, Callable g)]) (PLUGINS st')\<rparr>)"
    if "load_files files st = (None, st') \<and> endswith filename ''.py'' \<and> \<not> startswith n ''_''"
    using that by (simp add: load_files_append)
  show "eval_node fp P (Call (Name n) args kws) lg = (g vs, lg1 @ [(Plugin n, vs)])"
    if "n \<notin> builtin_names \<and> P n = Some g \<and> eval_args fp P args lg = (Inr vs, lg1)"
    using that by (simp add: SAFE_FUNCTIONS_None)
qed

lemma load_override:
  "PLUGINS (snd (load_plugins override_dir initial_state)) = [''abs'' \<mapsto> (\<lambda>args. Inr (PyInt 42))]"
  by (simp add: load_plugins_def override_dir_def initial_state_def endswith_def startswith_def)

text \<open>
  C5 as stated fails: after \<^verbatim>\<open>load_plugins\<close> has registered a plugin \<^verbatim>\<open>abs\<close> that returns 42,
  the text "abs(-5)" still invokes the built-in and returns 5.
\<close>

theorem plugin_shadows_builtin_counterexample:
  "\<forall>fp. PLUGINS (snd (load_plugins override_dir initial_state)) ''abs''
           = Some (\<lambda>args. Inr (PyInt 42))
     \<and> eval_expr (ast_parse fp) fp (PLUGINS (snd (load_plugins override_dir initial_state)))
         ''abs(-5)'' = (Inr (PyInt 5), [(Builtin ''abs'', [PyInt (- 5)])])"
proof (intro allI conjI)
  fix fp
  show "PLUGINS (snd (load_plugins override_dir initial_state)) ''abs''
           = Some (\<lambda>args. Inr (PyInt 42))"
    by (simp add: load_override)
  have "eval_expr (ast_parse fp) fp [''abs'' \<mapsto> (\<lambda>args. Inr (PyInt 42))] ''abs(-5)''
      = (Inr (PyInt 5), [(Builtin ''abs'', [PyInt (- 5)])])"
    by code_simp
  then show "eval_expr (ast_parse fp) fp (PLUGINS (snd (load_plugins override_dir initial_state)))
         ''abs(-5)'' = (Inr (PyInt 5), [(Builtin ''abs'', [PyInt (- 5)])])"
    by (simp only: load_override)
qed

text \<open>
  At a plugin \<^verbatim>\<open>abs\<close>, which changes nothing, and at the directory of three entries: the
  file that is no Python file is skipped, the private name is not registered, and the
  \<^verbatim>\<open>area\<close> of the last file is the one a call invokes.
\<close>

lemma load_two_files:
  "load_files [(''a.py'', Inr [(''area'', Callable (\<lambda>args. Inr (PyInt 1)))]),
               (''notes.txt'', Inr [(''area'', Callable (\<lambda>args. Inr (PyInt 2)))])] initial_state
     = (None, \<lparr>PLUGINS = [''area'' \<mapsto> (\<lambda>args. Inr (PyInt 1))], stdout = []\<rparr>)"
  by (simp add: initial_state_def endswith_def startswith_def)

theorem builtin_shadows_plugin_witness:
  "\<forall>fp.
     eval_node fp (Map.empty(''abs'' \<mapsto> (\<lambda>args. Inr (PyInt 42))))
        (Call (Name ''abs'') [Constant (CInt 7)] []) []
       = eval_node fp Map.empty (Call (Name ''abs'') [Constant (CInt 7)] []) []
   \<and> register_attrs ([(''area'', Callable (\<lambda>args. Inr (PyInt 1)))]
          @ [(''area'', Callable (\<lambda>args. Inr (PyInt 4)))]) Map.empty ''area''
       = Some (\<lambda>args. Inr (PyInt 4))
   \<and> fst (load_plugins two_files_dir initial_state) = None
   \<and> PLUGINS (snd (load_plugins two_files_dir initial_state)) ''area'' = Some (\<lambda>args. Inr (PyInt 4))
   \<and> eval_node fp [''area'' \<mapsto> (\<lambda>args. Inr (PyInt 4))] (Call (Name ''area'') [] []) []
       = (Inr (PyInt 4), [(Plugin ''area'', [])])"
proof (intro allI conjI)
  fix fp
  note t = builtin_shadows_plugin
  have b: "''abs'' \<in> builtin_names" "''area'' \<notin> builtin_names"
    by (simp_all add: builtin_names_def)
  have s: "\<not> startswith ''area'' ''_''" "endswith ''b.py'' ''.py''"
    by (simp_all add: startswith_def endswith_def)
  show "eval_node fp (Map.empty(''abs'' \<mapsto> (\<lambda>args. Inr (PyInt 42))))
        (Call (Name ''abs'') [Constant (CInt 7)] []) []
       = eval_node fp Map.empty (Call (Name ''abs'') [Constant (CInt 7)] []) []"
    using t [of "''abs''" fp Map.empty] b by blast
  show "register_attrs ([(''area'', Callable (\<lambda>args. Inr (PyInt 1)))]
          @ [(''area'', Callable (\<lambda>args. Inr (PyInt 4)))]) Map.empty ''area''
       = Some (\<lambda>args. Inr (PyInt 4))"
    using t [of "''area''"] s by blast
  have l: "load_files ([(''a.py'', Inr [(''area'', Callable (\<lambda>args. Inr (PyInt 1)))]),
               (''notes.txt'', Inr [(''area'', Callable (\<lambda>args. Inr (PyInt 2)))])]
             @ [(''b.py'', Inr ([(''_hidden'', Callable (\<lambda>args. Inr (PyInt 3)))]
                        @ [(''area'', Callable (\<lambda>args. Inr (PyInt 4)))]))]) initial_state
      = (None, \<lparr>PLUGINS = [''area'' \<mapsto> (\<lambda>args. Inr (PyInt 1))], stdout = []\<rparr>
           \<lparr>PLUGINS := register_attrs ([(''_hidden'', Callable (\<lambda>args. Inr (PyInt 3)))]
                        @ [(''area'', Callable (\<lambda>args. Inr (PyInt 4)))])
              (PLUGINS \<lparr>PLUGINS = [''area'' \<mapsto> (\<lambda>args. Inr (PyInt 1))], stdout = []\<rparr>)\<rparr>)"
    using t [where n = "''area''" and filename = "''b.py''" and st = initial_state
        and files = "[(''a.py'', Inr [(''area'', Callable (\<lambda>args. Inr (PyInt 1)))]),
               (''notes.txt'', Inr [(''area'', Callable (\<lambda>args. Inr (PyInt 2)))])]"
        and st' = "\<lparr>PLUGINS = [''area'' \<mapsto> (\<lambda>args. Inr (PyInt 1))], stdout = []\<rparr>"]
      load_two_files s by blast
  show "fst (load_plugins two_files_dir initial_state) = None"
    by (simp add: load_plugins_def two_files_dir_def initial_state_def endswith_def startswith_def)
  show "PLUGINS (snd (load_plugins two_files_dir initial_state)) ''area'' = Some (\<lambda>args. Inr (PyInt 4))"
    by (simp add: load_plugins_def two_files_dir_def initial_state_def endswith_def startswith_def)
  have a: "eval_args fp [''area'' \<mapsto> (\<lambda>args. Inr (PyInt 4))] [] [] = (Inr [], [])"
    by simp
  show "eval_node fp [''area'' \<mapsto> (\<lambda>args. Inr (PyInt 4))] (Call (Name ''area'') [] []) []
       = (Inr (PyInt 4), [(Plugin ''area'', [])])"
    using t [where n = "''area''" and fp = fp and P = "[''area'' \<mapsto> (\<lambda>args. Inr (PyInt 4))]"
        and g = "\<lambda>args. Inr (PyInt 4)" and args = "[]" and vs = "[]" and lg = "[]"
        and ?lg1.0 = "[]" and kws = "[]"] b a
    by simp
qed

end
